theory Spec2Isabelle
  imports Main
begin

section \<open>Data model\<close>

text \<open>
  Time is a number of whole seconds on one clock: \<open>get_current_timestamp\<close> strips the
  microseconds, and the \<open>TIMESTAMP\<close> columns of \<open>base_users\<close> keep whole seconds.
  A \<open>timedelta\<close> is a number of seconds as well.

  A row of the joined tables \<open>base_users\<close> and \<open>users\<close> (models/base_users.py,
  models/users.py), with the columns the authentication routes read or write. The
  column \<open>id\<close> is called \<open>user_id\<close> here, since \<open>id\<close> is the identity function of HOL.
\<close>

record user =
  user_id :: string
  username :: string
  email :: string
  hashed_otp :: "string option"
  otp_created_at :: "int option"
  last_login_at :: "int option"
  is_active :: bool
  role_id :: "int option"
  age :: "int option"

text \<open>
  The settings of config.py that the routes use, and the collaborators whose result the
  routes only consume: the passlib context behind \<open>hash_text\<close> and
  \<open>verify_hashed_text\<close> (controllers/utils.py), whether handing the mail to the
  background task raises (services/mail.py), and Python's \<open>str(e)\<close> of a caught
  exception, which depends on the installed versions of the libraries.

  An exception is what a route lets out or catches: \<open>HTTPException\<close> with its status code
  and detail, the exceptions of controllers/exceptions.py with their detail (the status
  of a \<open>NotFoundException\<close> is 404, that of a \<open>CouldNotSentEmailException\<close> 503; the
  detail of a \<open>CouldNotPerformDBOperationException\<close>, which quotes the database driver,
  is left out), Python's \<open>TypeError\<close>, and the exceptions of the JWT library with their
  message. Failures of the connection to the database are outside the model.
\<close>

datatype exception =
    HTTPException nat string
  | NotFoundException string
  | CouldNotPerformDBOperationException
  | CouldNotSentEmailException string
  | TypeError
  | InvalidHeaderError string
  | MissingTokenError string
  | JWTDecodeError string
  | AccessTokenRequired string
  | RefreshTokenRequired string

record env =
  DEBUG_MODE :: bool
  OTP_EXPIRED_TIME :: int
  ACCESS_TOKEN_EXPIRES_IN :: int
  REFRESH_TOKEN_EXPIRES_IN :: int
  hash_text :: "string \<Rightarrow> string"
  verify_hashed_text :: "string \<Rightarrow> string \<Rightarrow> bool"
  mail_raises :: bool
  str_e :: "exception \<Rightarrow> string"

text \<open>
  \<open>e.message\<close> exists on the exceptions of the JWT library only
  (\<open>hasattr(e, "message")\<close>); \<open>class_name\<close> is \<open>e.__class__.__name__\<close>.
\<close>

fun message :: "exception \<Rightarrow> string option" where
  "message (InvalidHeaderError m) = Some m"
| "message (MissingTokenError m) = Some m"
| "message (JWTDecodeError m) = Some m"
| "message (AccessTokenRequired m) = Some m"
| "message (RefreshTokenRequired m) = Some m"
| "message _ = None"

fun class_name :: "exception \<Rightarrow> string" where
  "class_name (HTTPException s d) = ''HTTPException''"
| "class_name (NotFoundException d) = ''NotFoundException''"
| "class_name CouldNotPerformDBOperationException = ''CouldNotPerformDBOperationException''"
| "class_name (CouldNotSentEmailException d) = ''CouldNotSentEmailException''"
| "class_name TypeError = ''TypeError''"
| "class_name (InvalidHeaderError m) = ''InvalidHeaderError''"
| "class_name (MissingTokenError m) = ''MissingTokenError''"
| "class_name (JWTDecodeError m) = ''JWTDecodeError''"
| "class_name (AccessTokenRequired m) = ''AccessTokenRequired''"
| "class_name (RefreshTokenRequired m) = ''RefreshTokenRequired''"

section \<open>Token service\<close>

text \<open>
  Modelled from the spec: the token service is the library fastapi_another_jwt_auth,
  which is not part of the sources. Following section 4.3 of the specification, a token
  is signed and carries its kind, its subject and its expiry; verification against an
  expected kind yields the subject or one of the failures Missing, Malformed, Expired and
  WrongKind. A token whose signature does not verify under the server's key is
  \<open>Undecodable\<close>; a token is expired from the second of its expiry on.
  The failures are named after the library's exception classes, which the handlers of
  the routes test: Missing is \<open>MissingTokenError\<close>, Malformed and Expired are
  \<open>JWTDecodeError\<close> (Expired with the message "Signature has expired"), WrongKind is
  \<open>AccessTokenRequired\<close> or \<open>RefreshTokenRequired\<close>. The \<open>AuthJWT\<close> object of a request is
  the token found in its header or cookie, if any.
\<close>

datatype token_type = access | refresh

datatype jwt = JWT token_type string int | Undecodable

datatype json = JStr string | JTok jwt

datatype response =
    JSONResponse nat "(string \<times> json) list"
  | CreateUserTokenResponse bool jwt jwt string

definition create_access_token :: "string \<Rightarrow> int \<Rightarrow> int \<Rightarrow> jwt" where
  "create_access_token subject expires_time now = JWT access subject (now + expires_time)"

definition create_refresh_token :: "string \<Rightarrow> int \<Rightarrow> int \<Rightarrow> jwt" where
  "create_refresh_token subject expires_time now = JWT refresh subject (now + expires_time)"

fun verify_jwt_in_request :: "jwt option \<Rightarrow> token_type \<Rightarrow> int \<Rightarrow> exception + unit" where
  "verify_jwt_in_request None type_token now = Inl (MissingTokenError ''Missing token'')"
| "verify_jwt_in_request (Some Undecodable) type_token now =
     Inl (JWTDecodeError ''Signature verification failed'')"
| "verify_jwt_in_request (Some (JWT t s e)) type_token now =
     (if e \<le> now then Inl (JWTDecodeError ''Signature has expired'')
      else if t \<noteq> type_token then
        (case type_token of
           access \<Rightarrow> Inl (AccessTokenRequired ''Only access tokens are allowed'')
         | refresh \<Rightarrow> Inl (RefreshTokenRequired ''Only refresh tokens are allowed''))
      else Inr ())"

definition jwt_required :: "jwt option \<Rightarrow> int \<Rightarrow> exception + unit" where
  "jwt_required authorize now = verify_jwt_in_request authorize access now"

definition jwt_refresh_token_required :: "jwt option \<Rightarrow> int \<Rightarrow> exception + unit" where
  "jwt_refresh_token_required authorize now = verify_jwt_in_request authorize refresh now"

fun get_jwt_subject :: "jwt option \<Rightarrow> string option" where
  "get_jwt_subject (Some (JWT t s e)) = Some s"
| "get_jwt_subject _ = None"

section \<open>Credential store\<close>

text \<open>
  The table is the list of its rows. \<open>session.scalar\<close> returns the first row of the
  result, or \<open>None\<close>. A comparison of a column with \<open>None\<close> selects no row.
  None of the three selects of models/users.py filters on \<open>is_active\<close>.
\<close>

fun User_read :: "user list \<Rightarrow> string option \<Rightarrow> user option" where
  "User_read st None = None"
| "User_read st (Some i) = find (\<lambda>u. user_id u = i) st"

fun User_read_for_auth :: "user list \<Rightarrow> string option \<Rightarrow> user option" where
  "User_read_for_auth st None = None"
| "User_read_for_auth st (Some i) = find (\<lambda>u. user_id u = i) st"

definition User_read_by_email :: "user list \<Rightarrow> string \<Rightarrow> user option" where
  "User_read_by_email st e = find (\<lambda>u. email u = e) st"

text \<open>
  The payload \<open>UpdateUserAfterTokenRequest\<close> (api/v1/user/schema.py).
\<close>

record UpdateUserAfterTokenRequest =
  req_id :: string
  req_otp :: "string option"
  req_otp_created_at :: "int option"
  req_last_login_at :: "int option"

text \<open>
  \<open>User.update_for_token\<close> assigns three attributes of the row object and commits. The
  commit writes the object back to its row, the first one with its primary key.
\<close>

definition update_for_token :: "user \<Rightarrow> UpdateUserAfterTokenRequest \<Rightarrow> user" where
  "update_for_token self data =
     self\<lparr>hashed_otp := req_otp data,
          otp_created_at := req_otp_created_at data,
          last_login_at := req_last_login_at data\<rparr>"

fun commit :: "user list \<Rightarrow> user \<Rightarrow> user list" where
  "commit [] r = []"
| "commit (u # us) r = (if user_id u = user_id r then r # us else u # commit us r)"

text \<open>The operations of api/v1/user/operations.py.\<close>

definition UpdateUserForToken_execute ::
  "user list \<Rightarrow> UpdateUserAfterTokenRequest \<Rightarrow> exception + user list" where
  "UpdateUserForToken_execute st payload =
     (case User_read st (Some (req_id payload)) of
        None \<Rightarrow> Inl (NotFoundException ''User not found'')
      | Some user \<Rightarrow> Inr (commit st (update_for_token user payload)))"

definition ReadUserForToken_execute :: "user list \<Rightarrow> string \<Rightarrow> exception + user" where
  "ReadUserForToken_execute st e =
     (case User_read_by_email st e of
        None \<Rightarrow> Inl (NotFoundException ''User not found'')
      | Some user \<Rightarrow> Inr user)"

definition ReadUser_execute :: "user list \<Rightarrow> string option \<Rightarrow> exception + user" where
  "ReadUser_execute st id' =
     (case User_read st id' of
        None \<Rightarrow> Inl (NotFoundException ''User not found'')
      | Some user \<Rightarrow> Inr user)"

definition ReadUser_execute_for_auth :: "user list \<Rightarrow> string option \<Rightarrow> exception + user" where
  "ReadUser_execute_for_auth st id' =
     (case User_read_for_auth st id' of
        None \<Rightarrow> Inl (NotFoundException ''User not found'')
      | Some user \<Rightarrow> Inr user)"

section \<open>Authorization guard\<close>

text \<open>
  \<open>protected_route\<close> of services/oauth2.py. The \<open>try\<close> block is \<open>protected_route_try\<close>;
  the two \<open>except\<close> clauses are \<open>protected_route_except\<close>: a \<open>NotFoundException\<close> keeps
  its detail, everything else is told apart by class name and message.
\<close>

definition protected_route_try :: "user list \<Rightarrow> jwt option \<Rightarrow> int \<Rightarrow> exception + string" where
  "protected_route_try st authorize now =
     (case jwt_required authorize now of
        Inl e \<Rightarrow> Inl e
      | Inr _ \<Rightarrow>
          (case ReadUser_execute_for_auth st (get_jwt_subject authorize) of
             Inl e \<Rightarrow> Inl e
           | Inr user \<Rightarrow>
               if \<not> is_active user then Inl (NotFoundException ''User no longer exist'')
               else if last_login_at user = None
               then Inl (NotFoundException ''Log in first to access this route'')
               else Inr (user_id user)))"

fun protected_route_except :: "exception \<Rightarrow> exception" where
  "protected_route_except (NotFoundException d) = HTTPException 401 d"
| "protected_route_except e =
     (if class_name e = ''InvalidHeaderError''
      then HTTPException 401 (''Invalid Token. Should be a '' @ [CHR 0x27] @ ''Bearer <token>'' @ [CHR 0x27])
      else if class_name e = ''MissingTokenError''
      then HTTPException 401 ''You are not logged in. Token is Missing''
      else if message e = Some ''Signature has expired''
      then HTTPException 401 ''Token has expired, login again''
      else HTTPException 401 ''Token is invalid'')"

definition protected_route :: "user list \<Rightarrow> jwt option \<Rightarrow> int \<Rightarrow> exception + string" where
  "protected_route st authorize now =
     (case protected_route_try st authorize now of
        Inl e \<Rightarrow> Inl (protected_route_except e)
      | Inr i \<Rightarrow> Inr i)"

section \<open>Routes of api/v1/auth/routes.py\<close>

text \<open>
  \<open>logout_user\<close> depends on \<open>protected_route\<close>, so its body runs only with the id the
  guard returns. A route returns what it raises or answers, and the table after it.
\<close>

definition logout_user ::
  "user list \<Rightarrow> jwt option \<Rightarrow> int \<Rightarrow> (exception + response) \<times> user list" where
  "logout_user st authorize now =
     (case protected_route st authorize now of
        Inl e \<Rightarrow> (Inl e, st)
      | Inr uid \<Rightarrow>
          (case UpdateUserForToken_execute st
                  \<lparr>req_id = uid, req_otp = None, req_otp_created_at = None,
                   req_last_login_at = None\<rparr> of
             Inl e \<Rightarrow> (Inl e, st)
           | Inr st' \<Rightarrow>
               (Inr (JSONResponse 200 [(''message'', JStr ''Successfully logged out'')]), st')))"

text \<open>
  \<open>get_token\<close>: the login by one-time password. \<open>user.otp_created_at + timedelta(...)\<close>
  raises \<open>TypeError\<close> on a row whose \<open>otp_created_at\<close> is \<open>None\<close>. The expiry of the
  password is looked at only inside the branch of a failed comparison.
\<close>

definition get_token ::
  "env \<Rightarrow> user list \<Rightarrow> string \<Rightarrow> string \<Rightarrow> int \<Rightarrow> (exception + response) \<times> user list" where
  "get_token cfg st payload_email payload_otp now =
     (case ReadUserForToken_execute st payload_email of
        Inl e \<Rightarrow> (Inl e, st)
      | Inr user \<Rightarrow>
          if DEBUG_MODE cfg \<and>
             (case last_login_at user of
                None \<Rightarrow> False
              | Some l \<Rightarrow> l + 60 * ACCESS_TOKEN_EXPIRES_IN cfg \<ge> now)
          then (Inr (JSONResponse 208 [(''detail'', JStr ''You are logged in.'')]), st)
          else
            (case hashed_otp user of
               None \<Rightarrow> (Inl (HTTPException 400 ''User has not requested OTP yet''), st)
             | Some h \<Rightarrow>
                 if \<not> verify_hashed_text cfg payload_otp h then
                   (case otp_created_at user of
                      None \<Rightarrow> (Inl TypeError, st)
                    | Some c \<Rightarrow>
                        if c + OTP_EXPIRED_TIME cfg < now
                        then (Inl (HTTPException 400 ''OTP expired''), st)
                        else (Inl (HTTPException 400 ''Incorrect OTP''), st))
                 else
                   (case UpdateUserForToken_execute st
                           \<lparr>req_id = user_id user, req_otp = None,
                            req_otp_created_at = None, req_last_login_at = Some now\<rparr> of
                      Inl e \<Rightarrow> (Inl (HTTPException 500 ''Could not login. Try again''), st)
                    | Inr st' \<Rightarrow>
                        (Inr (CreateUserTokenResponse
                               (age user = None)
                               (create_access_token (user_id user)
                                  (60 * ACCESS_TOKEN_EXPIRES_IN cfg) now)
                               (create_refresh_token (user_id user)
                                  (60 * REFRESH_TOKEN_EXPIRES_IN cfg) now)
                               (username user)), st'))))"

text \<open>
  \<open>refresh_access_token\<close>: the \<open>try\<close> block, then the \<open>except Exception\<close> clause, which
  also catches the two \<open>HTTPException\<close>s the block raises itself. The answer is a
  \<open>JSONResponse\<close> with its default status.
\<close>

definition refresh_access_token_try ::
  "env \<Rightarrow> user list \<Rightarrow> jwt option \<Rightarrow> int \<Rightarrow> exception + response" where
  "refresh_access_token_try cfg st authorize now =
     (case jwt_refresh_token_required authorize now of
        Inl e \<Rightarrow> Inl e
      | Inr _ \<Rightarrow>
          (let id' = get_jwt_subject authorize in
           if id' = None \<or> id' = Some []
           then Inl (HTTPException 401 ''Could not refresh access token'')
           else
             (case ReadUser_execute st id' of
                Inl e \<Rightarrow> Inl e
              | Inr user \<Rightarrow>
                  Inr (JSONResponse 200
                         [(''access_token'',
                           JTok (create_access_token (user_id user)
                                   (60 * ACCESS_TOKEN_EXPIRES_IN cfg) now))]))))"

definition refresh_access_token_except :: "env \<Rightarrow> exception \<Rightarrow> exception" where
  "refresh_access_token_except cfg e =
     (if message e = Some ''Signature has expired''
      then HTTPException 401 ''Refresh token has expired, login again''
      else if class_name e = ''MissingTokenError''
      then HTTPException 400 ''Provide refresh token''
      else if class_name e = ''JWTDecodeError''
      then HTTPException 401 ''Invalid refresh token''
      else HTTPException 500
             (if str_e cfg e = [] then ''Internal Server Error'' else str_e cfg e))"

definition refresh_access_token ::
  "env \<Rightarrow> user list \<Rightarrow> jwt option \<Rightarrow> int \<Rightarrow> exception + response" where
  "refresh_access_token cfg st authorize now =
     (case refresh_access_token_try cfg st authorize now of
        Inl e \<Rightarrow> Inl (refresh_access_token_except cfg e)
      | Inr r \<Rightarrow> Inr r)"

section \<open>Route of api/v1/user/routes.py\<close>

text \<open>
  The random draws of one request are its inputs: the \<open>uuid4\<close> of a new row, the text of
  \<open>generate_random_number()\<close> appended to a taken username, and the four digits of the
  one-time password.
\<close>

record draws =
  uuid4 :: string
  random_number :: string
  otp :: string

text \<open>
  \<open>User.create\<close>: the username is the part of the email before its first \<open>@\<close>. The
  commit fails on a unique column (\<open>id\<close>, \<open>username\<close>, \<open>email\<close>) that is already taken.
  \<open>CreateUser.execute\<close> creates the row when the email is unknown.
\<close>

definition User_create ::
  "user list \<Rightarrow> string \<Rightarrow> draws \<Rightarrow> exception + user \<times> user list" where
  "User_create st payload_email rnd =
     (let name0 = takeWhile (\<lambda>c. c \<noteq> CHR ''@'') payload_email;
          name = (case find (\<lambda>u. username u = name0) st of
                    None \<Rightarrow> name0
                  | Some _ \<Rightarrow> name0 @ random_number rnd);
          user = \<lparr>user_id = uuid4 rnd, username = name, email = payload_email,
                  hashed_otp = None, otp_created_at = None, last_login_at = None,
                  is_active = True, role_id = Some 1, age = None\<rparr>
      in case find (\<lambda>u. user_id u = user_id user \<or> username u = name
                          \<or> email u = payload_email) st of
           Some _ \<Rightarrow> Inl CouldNotPerformDBOperationException
         | None \<Rightarrow> Inr (user, st @ [user]))"

definition CreateUser_execute ::
  "user list \<Rightarrow> string \<Rightarrow> draws \<Rightarrow> exception + user \<times> user list" where
  "CreateUser_execute st payload_email rnd =
     (case User_read_by_email st payload_email of
        None \<Rightarrow> User_create st payload_email rnd
      | Some user \<Rightarrow> Inr (user, st))"

text \<open>
  Python's \<open>str\<close> of a natural number, and \<open>timedelta.seconds\<close>: the seconds within the
  day, never negative (the days are counted apart).
\<close>

fun str_nat :: "nat \<Rightarrow> string" where
  "str_nat n =
     (if n < 10 then [''0123456789'' ! n]
      else str_nat (n div 10) @ [''0123456789'' ! (n mod 10)])"

declare str_nat.simps [simp del]

definition timedelta_seconds :: "int \<Rightarrow> nat" where
  "timedelta_seconds d = nat (d mod 86400)"

text \<open>
  The block under \<open>if DEBUG_MODE:\<close> of \<open>register_or_login_user\<close>: \<open>Some\<close> is what it
  returns or raises, \<open>None\<close> means that control falls through to the issuing of a new
  password.
\<close>

definition debug_mode_checks :: "env \<Rightarrow> user \<Rightarrow> int \<Rightarrow> (exception + response) option" where
  "debug_mode_checks cfg user now =
     (if (case last_login_at user of
            None \<Rightarrow> False
          | Some l \<Rightarrow> l + 60 * ACCESS_TOKEN_EXPIRES_IN cfg \<ge> now)
      then Some (Inr (JSONResponse 208 [(''detail'', JStr ''You are logged in.'')]))
      else
        (case otp_created_at user of
           None \<Rightarrow> None
         | Some c \<Rightarrow>
             (let time_diff = c + OTP_EXPIRED_TIME cfg;
                  secs_to_retry = time_diff - now
              in if \<not> time_diff < now
                 then Some (Inl (HTTPException 400
                        (''Try again in '' @ str_nat (timedelta_seconds secs_to_retry)
                           @ '' seconds'')))
                 else None)))"

text \<open>
  The \<open>try\<close> block with its two \<open>except\<close> clauses: a \<open>CouldNotSentEmailException\<close> keeps
  its status 503 and its detail, any other exception becomes a 503 as well.
\<close>

definition issue_otp ::
  "env \<Rightarrow> user list \<Rightarrow> user \<Rightarrow> draws \<Rightarrow> int \<Rightarrow> (exception + response) \<times> user list" where
  "issue_otp cfg st user rnd now =
     (if \<not> DEBUG_MODE cfg \<and> mail_raises cfg
      then (Inl (HTTPException 503 ''Could not sent email.''), st)
      else
        (case UpdateUserForToken_execute st
                \<lparr>req_id = user_id user, req_otp = Some (hash_text cfg (otp rnd)),
                 req_otp_created_at = Some now, req_last_login_at = None\<rparr> of
           Inl e \<Rightarrow> (Inl (HTTPException 503 ''Could not sent email''), st)
         | Inr st' \<Rightarrow>
             (Inr (JSONResponse 201
                    ((''detail'', JStr ''OTP sent to email'')
                     # (if DEBUG_MODE cfg then [(''otp'', JStr (otp rnd))] else []))),
              st')))"

definition register_or_login_user ::
  "env \<Rightarrow> user list \<Rightarrow> string \<Rightarrow> draws \<Rightarrow> int \<Rightarrow> (exception + response) \<times> user list" where
  "register_or_login_user cfg st payload_email rnd now =
     (case CreateUser_execute st payload_email rnd of
        Inl e \<Rightarrow> (Inl e, st)
      | Inr (user, st1) \<Rightarrow>
          (case (if DEBUG_MODE cfg then debug_mode_checks cfg user now else None) of
             Some r \<Rightarrow> (r, st1)
           | None \<Rightarrow> issue_otp cfg st1 user rnd now))"

section \<open>Sample data\<close>

text \<open>
  A configuration, in production mode and in debug mode, with a stand-in for the passlib
  context, and three rows: \<open>alice\<close> is logged in, \<open>bob\<close> has a one-time password pending
  since second 1000, \<open>carol\<close> is like \<open>bob\<close> but soft-deleted.
\<close>

definition cfg0 :: env where
  "cfg0 = \<lparr>DEBUG_MODE = False, OTP_EXPIRED_TIME = 300, ACCESS_TOKEN_EXPIRES_IN = 15,
           REFRESH_TOKEN_EXPIRES_IN = 60, hash_text = (\<lambda>t. ''bcrypt:'' @ t),
           verify_hashed_text = (\<lambda>t h. h = ''bcrypt:'' @ t), mail_raises = False,
           str_e = (\<lambda>e. [])\<rparr>"

definition cfg_debug :: env where
  "cfg_debug = cfg0\<lparr>DEBUG_MODE := True\<rparr>"

definition alice :: user where
  "alice = \<lparr>user_id = ''u1'', username = ''alice'', email = ''alice@x.com'',
            hashed_otp = None, otp_created_at = None,
            last_login_at = Some 1000, is_active = True, role_id = Some 1, age = Some 30\<rparr>"

definition bob :: user where
  "bob = \<lparr>user_id = ''u2'', username = ''bob'', email = ''bob@x.com'',
          hashed_otp = Some ''bcrypt:1234'', otp_created_at = Some 1000,
          last_login_at = None, is_active = True, role_id = Some 1, age = None\<rparr>"

definition carol :: user where
  "carol = \<lparr>user_id = ''u3'', username = ''carol'', email = ''carol@x.com'',
            hashed_otp = Some ''bcrypt:1234'', otp_created_at = Some 1000,
            last_login_at = None, is_active = False, role_id = Some 1, age = None\<rparr>"

definition rnd0 :: draws where
  "rnd0 = \<lparr>uuid4 = ''u9'', random_number = ''4711'', otp = ''5678''\<rparr>"

section \<open>Facts about the store and the guard\<close>

lemmas route_defs =
  get_token_def ReadUserForToken_execute_def User_read_by_email_def
  UpdateUserForToken_execute_def update_for_token_def create_access_token_def
  create_refresh_token_def protected_route_def protected_route_try_def
  ReadUser_execute_for_auth_def jwt_required_def logout_user_def refresh_access_token_def
  refresh_access_token_try_def refresh_access_token_except_def
  jwt_refresh_token_required_def ReadUser_execute_def register_or_login_user_def
  CreateUser_execute_def debug_mode_checks_def issue_otp_def User_create_def

lemmas sample_defs = cfg0_def cfg_debug_def alice_def bob_def carol_def rnd0_def

lemma find_commit:
  "find (\<lambda>u. user_id u = i) (commit st r) =
     (if i = user_id r
      then (case find (\<lambda>u. user_id u = i) st of None \<Rightarrow> None | Some _ \<Rightarrow> Some r)
      else find (\<lambda>u. user_id u = i) st)"
  by (induction st) auto

lemma find_user_id: "find (\<lambda>u. user_id u = i) st = Some u \<Longrightarrow> user_id u = i"
  by (induction st) (auto split: if_splits)

lemma find_email: "find (\<lambda>u. email u = e) st = Some u \<Longrightarrow> email u = e"
  by (induction st) (auto split: if_splits)

text \<open>
  With \<open>id\<close> a primary key, the row found by its email is the row found by its id, and
  it is still the row found by that email once an object with the same id and email has
  been committed.
\<close>

lemma find_id_distinct:
  assumes "distinct (map user_id st)" and "find (\<lambda>u. email u = e) st = Some u"
  shows "find (\<lambda>w. user_id w = user_id u) st = Some u"
  using assms
proof (induction st)
  case Nil
  then show ?case by simp
next
  case (Cons a st)
  show ?case
  proof (cases "email a = e")
    case True
    with Cons.prems show ?thesis by simp
  next
    case False
    with Cons.prems have u: "find (\<lambda>u. email u = e) st = Some u" by simp
    then have "u \<in> set st" by (auto simp: find_Some_iff)
    with Cons.prems(1) have "user_id a \<noteq> user_id u" by auto
    with Cons False u show ?thesis by simp
  qed
qed

lemma find_email_commit:
  assumes "distinct (map user_id st)"
    and "find (\<lambda>u. email u = e) st = Some u"
    and "user_id r = user_id u" and "email r = e"
  shows "find (\<lambda>u. email u = e) (commit st r) = Some r"
  using assms
proof (induction st)
  case Nil
  then show ?case by simp
next
  case (Cons a st)
  show ?case
  proof (cases "email a = e")
    case True
    with Cons.prems show ?thesis by simp
  next
    case False
    with Cons.prems have u: "find (\<lambda>u. email u = e) st = Some u" by simp
    then have "u \<in> set st" by (auto simp: find_Some_iff)
    with Cons.prems(1) have "user_id a \<noteq> user_id u" by auto
    with Cons False u show ?thesis by simp
  qed
qed

lemma find_map_user_id:
  assumes "\<And>u. user_id (f u) = user_id u"
  shows "find (\<lambda>u. user_id u = i) (map f st) = map_option f (find (\<lambda>u. user_id u = i) st)"
  by (induction st) (auto simp: assms)

text \<open>Whatever the guard raises has status 401.\<close>

lemma protected_route_except_401: "\<exists>d. protected_route_except e = HTTPException 401 d"
  by (cases e) auto

lemma protected_route_Inl_401:
  "protected_route st tok now = Inl e \<Longrightarrow> \<exists>d. e = HTTPException 401 d"
  using protected_route_except_401
  by (auto simp: protected_route_def split: sum.splits)

text \<open>
  What the guard has checked when it returns an id: an unexpired access token with that
  subject, and an active, logged-in row with that id.
\<close>

lemma protected_route_InrD:
  assumes "protected_route st tok now = Inr i"
  shows "\<exists>e u. tok = Some (JWT access i e) \<and> now < e
           \<and> find (\<lambda>u. user_id u = i) st = Some u \<and> is_active u \<and> last_login_at u \<noteq> None"
proof -
  from assms have t: "protected_route_try st tok now = Inr i"
    by (auto simp: protected_route_def split: sum.splits)
  then obtain t s e where tok: "tok = Some (JWT t s e)"
    by (cases tok rule: get_jwt_subject.cases)
       (auto simp: protected_route_try_def jwt_required_def)
  from t tok have "t = access" "now < e"
    by (auto simp: protected_route_try_def jwt_required_def
        split: if_splits sum.splits token_type.splits)
  with t tok show ?thesis
    by (auto simp: protected_route_try_def jwt_required_def ReadUser_execute_for_auth_def
        split: if_splits sum.splits option.splits dest: find_user_id)
qed

lemma logout_user_InrD:
  assumes "logout_user st tok now = (Inr r, st')"
  shows "\<exists>i e u. tok = Some (JWT access i e) \<and> now < e
           \<and> find (\<lambda>u. user_id u = i) st = Some u \<and> is_active u
           \<and> st' = commit st
                 (u\<lparr>hashed_otp := None, otp_created_at := None, last_login_at := None\<rparr>)"
proof -
  from assms obtain i where p: "protected_route st tok now = Inr i"
    by (auto simp: logout_user_def split: sum.splits)
  from protected_route_InrD[OF p] obtain e u where
    f: "tok = Some (JWT access i e)" "now < e" "find (\<lambda>u. user_id u = i) st = Some u"
       "is_active u"
    by blast
  with assms p show ?thesis
    by (auto simp: logout_user_def UpdateUserForToken_execute_def update_for_token_def)
qed

text \<open>A rejection by the guard is a rejection of the logout, and the table stays.\<close>

lemma logout_user_rejected:
  "protected_route st tok now = Inl e \<Longrightarrow> logout_user st tok now = (Inl e, st)"
  by (simp add: logout_user_def)

text \<open>What a successful login has read and written.\<close>

lemma get_token_InrD:
  assumes "get_token cfg st e code now = (Inr (CreateUserTokenResponse n a r un), st')"
  shows "\<exists>u w. find (\<lambda>u. email u = e) st = Some u
           \<and> find (\<lambda>w. user_id w = user_id u) st = Some w
           \<and> st' = commit st
                 (w\<lparr>hashed_otp := None, otp_created_at := None, last_login_at := Some now\<rparr>)
           \<and> a = create_access_token (user_id u) (60 * ACCESS_TOKEN_EXPIRES_IN cfg) now"
  using assms
  by (auto simp: get_token_def ReadUserForToken_execute_def User_read_by_email_def
      UpdateUserForToken_execute_def update_for_token_def
      split: option.splits if_splits sum.splits)

text \<open>
  The refresh route reads a row only for its id, so it cannot tell two tables apart
  whose rows differ in other columns.
\<close>

lemma ReadUser_execute_map:
  assumes "\<And>u. user_id (f u) = user_id u"
  shows "ReadUser_execute (map f st) x =
           (case ReadUser_execute st x of Inl e \<Rightarrow> Inl e | Inr u \<Rightarrow> Inr (f u))"
  by (cases x) (auto simp: ReadUser_execute_def find_map_user_id assms split: option.splits)

lemma refresh_access_token_map:
  assumes "\<And>u. user_id (f u) = user_id u"
  shows "refresh_access_token cfg (map f st) tok now = refresh_access_token cfg st tok now"
proof -
  have "refresh_access_token_try cfg (map f st) tok now
          = refresh_access_token_try cfg st tok now"
    by (simp add: refresh_access_token_try_def ReadUser_execute_map assms Let_def
        split: sum.splits)
  then show ?thesis by (simp add: refresh_access_token_def)
qed

section \<open>Login by one-time password\<close>

text \<open>
  A matching code is never answered with "OTP expired": the expiry is not looked at on
  that branch of \<open>get_token\<close>.
\<close>

lemma get_token_matching_code_never_expired:
  assumes "User_read_by_email st e = Some u" and "hashed_otp u = Some h"
    and "verify_hashed_text cfg code h"
  shows "fst (get_token cfg st e code now) \<noteq> Inl (HTTPException 400 ''OTP expired'')"
  using assms by (auto simp: route_defs split: option.splits)

text \<open>
  C1. The claim: the hash comparison comes first and the expiry check only after it has
  failed, and so a correct code submitted after the expiry is rejected as expired. The
  first half is how \<open>get_token\<close> is written; the second half does not follow and does not
  hold: \<open>bob\<close>'s password was created at second 1000 and expired at second 1300, and at
  second 5000 the correct code still logs him in, consumes the password and issues both
  tokens.
\<close>

theorem get_token_accepts_expired_otp:
  "otp_created_at bob = Some 1000 \<and> 1000 + OTP_EXPIRED_TIME cfg0 < 5000
   \<and> verify_hashed_text cfg0 ''1234'' ''bcrypt:1234''
   \<and> get_token cfg0 [bob] ''bob@x.com'' ''1234'' 5000 =
       (Inr (CreateUserTokenResponse True (JWT access ''u2'' 5900) (JWT refresh ''u2'' 8600)
              ''bob''),
        [bob\<lparr>hashed_otp := None, otp_created_at := None, last_login_at := Some 5000\<rparr>])"
  by (simp add: route_defs sample_defs)

section \<open>Request of a one-time password\<close>

text \<open>
  In debug mode the backoff is enforced: for a user who holds no unexpired session, a
  request made while the pending password has not expired is rejected with status 400
  and "Try again in N seconds", and the table is left as it was. N is the \<open>seconds\<close>
  attribute of the remaining time, which is the remaining time itself when that is less
  than a day.
\<close>

lemma register_or_login_user_backoff:
  assumes "DEBUG_MODE cfg" and "User_read_by_email st e = Some u"
    and "otp_created_at u = Some c" and "c + OTP_EXPIRED_TIME cfg \<ge> now"
    and "\<forall>l. last_login_at u = Some l \<longrightarrow> l + 60 * ACCESS_TOKEN_EXPIRES_IN cfg < now"
  shows "register_or_login_user cfg st e rnd now =
           (Inl (HTTPException 400
                  (''Try again in ''
                   @ str_nat (timedelta_seconds (c + OTP_EXPIRED_TIME cfg - now))
                   @ '' seconds'')), st)
       \<and> int (timedelta_seconds (c + OTP_EXPIRED_TIME cfg - now))
           = (c + OTP_EXPIRED_TIME cfg - now) mod 86400
       \<and> (c + OTP_EXPIRED_TIME cfg - now < 86400 \<longrightarrow>
            int (timedelta_seconds (c + OTP_EXPIRED_TIME cfg - now))
              = c + OTP_EXPIRED_TIME cfg - now)"
  using assms
  by (auto simp: register_or_login_user_def CreateUser_execute_def debug_mode_checks_def
      timedelta_seconds_def Let_def split: option.splits)

text \<open>In debug mode, \<open>bob\<close>'s request 100 seconds after his password was created.\<close>

lemma register_or_login_user_backoff_bob:
  "DEBUG_MODE cfg_debug \<and> User_read_by_email [bob] ''bob@x.com'' = Some bob
   \<and> register_or_login_user cfg_debug [bob] ''bob@x.com'' rnd0 1100 =
       (Inl (HTTPException 400 ''Try again in 200 seconds''), [bob])"
proof -
  have s: "str_nat 200 = ''200''" by code_simp
  have t: "timedelta_seconds 200 = 200" by (simp add: timedelta_seconds_def)
  show ?thesis
    using register_or_login_user_backoff [of cfg_debug "[bob]" "''bob@x.com''" bob 1000 1100 rnd0]
    by (simp add: sample_defs User_read_by_email_def s t)
qed

text \<open>At the second of the expiry the request is still rejected, with zero seconds.\<close>

lemma register_or_login_user_retry_zero:
  "register_or_login_user cfg_debug [bob] ''bob@x.com'' rnd0 1300 =
     (Inl (HTTPException 400 ''Try again in 0 seconds''), [bob])"
proof -
  have s: "str_nat 0 = ''0''" by code_simp
  show ?thesis
    by (simp add: route_defs sample_defs timedelta_seconds_def s)
qed

text \<open>
  C2. The claim: a request made while a password that has not expired is pending is
  rejected, with the seconds left to wait, and the stored password is not overwritten.
  The check that does this stands under \<open>if DEBUG_MODE:\<close>, against the comment above it
  that the condition should be \<open>not DEBUG_MODE\<close>. In production mode it is skipped:
  \<open>bob\<close>'s password was created at second 1000 and is good until second 1300, and his
  request at second 1100 is answered with 201 and overwrites the stored password.
\<close>

theorem register_or_login_user_overwrites_pending_otp:
  "\<not> DEBUG_MODE cfg0
   \<and> otp_created_at bob = Some 1000 \<and> 1000 + OTP_EXPIRED_TIME cfg0 \<ge> 1100
   \<and> register_or_login_user cfg0 [bob] ''bob@x.com'' rnd0 1100 =
       (Inr (JSONResponse 201 [(''detail'', JStr ''OTP sent to email'')]),
        [bob\<lparr>hashed_otp := Some ''bcrypt:5678'', otp_created_at := Some 1100\<rparr>])"
  by (simp add: route_defs sample_defs)

section \<open>Soft-deleted users\<close>

text \<open>
  C3. The claim: a row with \<open>is_active = False\<close> is absent for every read path. Only the
  guard looks at the flag. For the soft-deleted \<open>carol\<close>, the lookup by email and the
  lookup by id both return her row, and her login succeeds and issues both tokens.
\<close>

theorem inactive_user_visible_to_lookups:
  "\<not> is_active carol
   \<and> User_read_by_email [carol] ''carol@x.com'' = Some carol
   \<and> User_read [carol] (Some ''u3'') = Some carol
   \<and> get_token cfg0 [carol] ''carol@x.com'' ''1234'' 1100 =
       (Inr (CreateUserTokenResponse True (JWT access ''u3'' 2000) (JWT refresh ''u3'' 4700)
              ''carol''),
        [carol\<lparr>hashed_otp := None, otp_created_at := None, last_login_at := Some 1100\<rparr>])"
  by (simp add: route_defs sample_defs)

section \<open>Rejections of the guard\<close>

text \<open>
  C4, as amended. With a valid access token, the three rejections of \<open>protected_route\<close>
  all have status 401, and each has its own detail: "User not found" when no row has the
  subject as id, "User no longer exist" when the row is not active, "Log in first to
  access this route" when the row is active and \<open>last_login_at\<close> is null.
\<close>

theorem protected_route_rejection_details:
  assumes "jwt_required tok now = Inr ()"
  shows "protected_route st tok now =
     (case User_read_for_auth st (get_jwt_subject tok) of
        None \<Rightarrow> Inl (HTTPException 401 ''User not found'')
      | Some u \<Rightarrow>
          if \<not> is_active u then Inl (HTTPException 401 ''User no longer exist'')
          else if last_login_at u = None
          then Inl (HTTPException 401 ''Log in first to access this route'')
          else Inr (user_id u))"
  using assms by (simp add: route_defs split: option.splits)

theorem protected_route_rejection_details_witness:
  "jwt_required (Some (JWT access ''u3'' 2000)) 1500 = Inr ()
   \<and> protected_route [carol] (Some (JWT access ''u3'' 2000)) 1500 =
       Inl (HTTPException 401 ''User no longer exist'')"
  using protected_route_rejection_details [of "Some (JWT access ''u3'' 2000)" 1500 "[carol]"]
  by (simp add: jwt_required_def carol_def)

text \<open>
  The claim as stated fails: the same token meets three different texts, one for each
  cause.
\<close>

theorem protected_route_details_differ_counterexample:
  "protected_route [] (Some (JWT access ''u3'' 2000)) 1500 =
     Inl (HTTPException 401 ''User not found'')
   \<and> protected_route [carol] (Some (JWT access ''u3'' 2000)) 1500 =
       Inl (HTTPException 401 ''User no longer exist'')
   \<and> protected_route [carol\<lparr>is_active := True\<rparr>] (Some (JWT access ''u3'' 2000)) 1500 =
       Inl (HTTPException 401 ''Log in first to access this route'')"
  by (simp add: route_defs sample_defs)

section \<open>Logout\<close>

text \<open>
  The logout of a user whose \<open>last_login_at\<close> is null never gets past the guard: the
  answer is a 401 and the table stays. The guard tests \<open>is_active\<close> before
  \<open>last_login_at\<close>, so a soft-deleted row is told "User no longer exist".
\<close>

lemma logout_user_logged_out:
  assumes "User_read_for_auth st (get_jwt_subject tok) = Some u" and "last_login_at u = None"
  shows "logout_user st tok now =
           (Inl (HTTPException 401
                  (case jwt_required tok now of
                     Inl e \<Rightarrow>
                       if message e = Some ''Signature has expired''
                       then ''Token has expired, login again'' else ''Token is invalid''
                   | Inr _ \<Rightarrow>
                       if is_active u then ''Log in first to access this route''
                       else ''User no longer exist'')), st)"
proof -
  from assms(1) obtain t s e where tok: "tok = Some (JWT t s e)"
    by (cases tok rule: get_jwt_subject.cases) auto
  with assms have "protected_route st tok now =
           Inl (HTTPException 401
                  (case jwt_required tok now of
                     Inl e \<Rightarrow>
                       if message e = Some ''Signature has expired''
                       then ''Token has expired, login again'' else ''Token is invalid''
                   | Inr _ \<Rightarrow>
                       if is_active u then ''Log in first to access this route''
                       else ''User no longer exist''))"
    by (cases t) (simp_all add: protected_route_def protected_route_try_def
        ReadUser_execute_for_auth_def jwt_required_def)
  then show ?thesis by (rule logout_user_rejected)
qed

text \<open>
  C5, as amended. Logout runs behind the guard, so its answer is not idempotent. First,
  a logout for a user who is already logged out (the row of the token's subject has
  \<open>last_login_at\<close> null) leaves the table as it is and is rejected with status 401: when
  the token verifies, with "Log in first to access this route" for an active row and
  "User no longer exist" for a soft-deleted one; when it does not, with "Token has
  expired, login again" or "Token is invalid". Second, after a logout that succeeded,
  the user's row is the old one with the three fields cleared, and another logout with
  the same token, at any time, is rejected with status 401 ("Log in first to access this
  route" while the token has not expired, "Token has expired, login again" afterwards)
  and leaves the table as the first logout left it.
\<close>

theorem logout_user_twice:
  "(User_read_for_auth st (get_jwt_subject tok) = Some u \<and> last_login_at u = None \<longrightarrow>
      logout_user st tok now =
        (Inl (HTTPException 401
               (case jwt_required tok now of
                  Inl e \<Rightarrow>
                    if message e = Some ''Signature has expired''
                    then ''Token has expired, login again'' else ''Token is invalid''
                | Inr _ \<Rightarrow>
                    if is_active u then ''Log in first to access this route''
                    else ''User no longer exist'')), st))
   \<and> (logout_user st1 tok1 now1 = (Inr r, st2) \<longrightarrow>
        User_read_for_auth st2 (get_jwt_subject tok1)
           = map_option
               (\<lambda>u. u\<lparr>hashed_otp := None, otp_created_at := None, last_login_at := None\<rparr>)
               (User_read_for_auth st1 (get_jwt_subject tok1))
        \<and> logout_user st2 tok1 now2 =
            (Inl (HTTPException 401
                   (case jwt_required tok1 now2 of
                      Inl _ \<Rightarrow> ''Token has expired, login again''
                    | Inr _ \<Rightarrow> ''Log in first to access this route'')), st2))"
proof (intro conjI impI)
  assume "User_read_for_auth st (get_jwt_subject tok) = Some u \<and> last_login_at u = None"
  then show "logout_user st tok now =
        (Inl (HTTPException 401
               (case jwt_required tok now of
                  Inl e \<Rightarrow>
                    if message e = Some ''Signature has expired''
                    then ''Token has expired, login again'' else ''Token is invalid''
                | Inr _ \<Rightarrow>
                    if is_active u then ''Log in first to access this route''
                    else ''User no longer exist'')), st)"
    by (simp add: logout_user_logged_out)
next
  assume a: "logout_user st1 tok1 now1 = (Inr r, st2)"
  from logout_user_InrD[OF a] obtain i e u where
    f: "tok1 = Some (JWT access i e)" "find (\<lambda>u. user_id u = i) st1 = Some u" "is_active u"
       "st2 = commit st1
                (u\<lparr>hashed_otp := None, otp_created_at := None, last_login_at := None\<rparr>)"
    by blast
  have i: "user_id u = i" using f(2) by (rule find_user_id)
  with f show "User_read_for_auth st2 (get_jwt_subject tok1)
           = map_option
               (\<lambda>u. u\<lparr>hashed_otp := None, otp_created_at := None, last_login_at := None\<rparr>)
               (User_read_for_auth st1 (get_jwt_subject tok1))"
    by (simp add: find_commit)
  from f i have "protected_route st2 tok1 now2 =
           Inl (HTTPException 401
                  (case jwt_required tok1 now2 of
                     Inl _ \<Rightarrow> ''Token has expired, login again''
                   | Inr _ \<Rightarrow> ''Log in first to access this route''))"
    by (simp add: protected_route_def protected_route_try_def ReadUser_execute_for_auth_def
        find_commit jwt_required_def)
  then show "logout_user st2 tok1 now2 =
            (Inl (HTTPException 401
                   (case jwt_required tok1 now2 of
                      Inl _ \<Rightarrow> ''Token has expired, login again''
                    | Inr _ \<Rightarrow> ''Log in first to access this route'')), st2)"
    by (simp add: logout_user_def)
qed

text \<open>
  Both halves at concrete rows: the logged-out, soft-deleted \<open>carol\<close>, and two logouts
  of \<open>alice\<close> in a row.
\<close>

theorem logout_user_twice_witness:
  "User_read_for_auth [carol] (get_jwt_subject (Some (JWT access ''u3'' 2000))) = Some carol
   \<and> last_login_at carol = None
   \<and> logout_user [carol] (Some (JWT access ''u3'' 2000)) 1500 =
       (Inl (HTTPException 401 ''User no longer exist''), [carol])
   \<and> logout_user [alice] (Some (JWT access ''u1'' 2000)) 1500 =
       (Inr (JSONResponse 200 [(''message'', JStr ''Successfully logged out'')]),
        [alice\<lparr>last_login_at := None\<rparr>])
   \<and> logout_user [alice\<lparr>last_login_at := None\<rparr>] (Some (JWT access ''u1'' 2000)) 1501 =
       (Inl (HTTPException 401 ''Log in first to access this route''),
        [alice\<lparr>last_login_at := None\<rparr>])"
proof -
  have g: "User_read_for_auth [carol] (get_jwt_subject (Some (JWT access ''u3'' 2000)))
             = Some carol"
    "last_login_at carol = None" "\<not> is_active carol"
    by (simp_all add: carol_def)
  have h: "logout_user [alice] (Some (JWT access ''u1'' 2000)) 1500 =
     (Inr (JSONResponse 200 [(''message'', JStr ''Successfully logged out'')]),
      [alice\<lparr>last_login_at := None\<rparr>])"
    by (simp add: route_defs sample_defs)
  from logout_user_twice [of "[carol]" "Some (JWT access ''u3'' 2000)" carol 1500
                             "[alice]" "Some (JWT access ''u1'' 2000)" 1500 _ _ 1501] g h
  show ?thesis
    by (simp add: jwt_required_def)
qed

text \<open>
  The claim as stated fails: \<open>bob\<close> is logged out, and his logout with a valid token is
  not a success but a 401.
\<close>

theorem logout_user_logged_out_counterexample:
  "last_login_at bob = None
   \<and> logout_user [bob] (Some (JWT access ''u2'' 2000)) 1500 =
       (Inl (HTTPException 401 ''Log in first to access this route''), [bob])"
  by (simp add: route_defs sample_defs)

section \<open>Refresh\<close>

text \<open>No access-kind token, expired or not, makes the refresh route issue a token.\<close>

lemma refresh_access_token_access_kind_never_issues:
  "refresh_access_token cfg st (Some (JWT access s e)) now \<noteq> Inr r"
  by (simp add: route_defs split: sum.splits)

text \<open>
  C6. The claim: a refresh that presents an access-kind token fails as unauthorized and
  issues nothing. Nothing is issued, but the \<open>except\<close> clause of \<open>refresh_access_token\<close>
  has no case for the wrong kind, so the failure falls through to its last \<open>raise\<close>: the
  answer to \<open>alice\<close>'s unexpired access token is a 500. The guard, its sibling, answers
  the mirrored mistake (a refresh token on a protected route) with a 401.
\<close>

theorem refresh_access_token_access_kind_500:
  "refresh_access_token cfg0 [alice] (Some (JWT access ''u1'' 2000)) 1500 =
     Inl (HTTPException 500 ''Internal Server Error'')
   \<and> protected_route [alice] (Some (JWT refresh ''u1'' 2000)) 1500 =
       Inl (HTTPException 401 ''Token is invalid'')"
  by (simp add: route_defs sample_defs)

text \<open>
  C9. The refresh route verifies the refresh token and that a row with the token's
  subject as id exists, and nothing else. A token that does not verify as a refresh
  token gets what the \<open>except\<close> clause makes of the failure, never a token. With an
  unexpired refresh token, the answer is decided by the subject and the lookup by id
  alone: an empty subject and a missing row are refused (their exceptions are caught by
  the \<open>except\<close> clause and leave as a 500), and whenever the row exists the answer is a
  new access token for that id, also for a user who is logged out or soft-deleted.
  Neither \<open>last_login_at\<close> nor \<open>is_active\<close> is consulted: the answer to any request is
  the same on a table whose rows have these two columns changed at will.
\<close>

theorem refresh_access_token_ignores_session_state:
  assumes "now < e"
  shows "refresh_access_token cfg st (Some (JWT refresh i e)) now =
           (if i = []
            then Inl (HTTPException 500
                   (if str_e cfg (HTTPException 401 ''Could not refresh access token'') = []
                    then ''Internal Server Error''
                    else str_e cfg (HTTPException 401 ''Could not refresh access token'')))
            else
              (case User_read st (Some i) of
                 None \<Rightarrow>
                   Inl (HTTPException 500
                     (if str_e cfg (NotFoundException ''User not found'') = []
                      then ''Internal Server Error''
                      else str_e cfg (NotFoundException ''User not found'')))
               | Some u \<Rightarrow>
                   Inr (JSONResponse 200 [(''access_token'',
                     JTok (create_access_token i (60 * ACCESS_TOKEN_EXPIRES_IN cfg) now))])))
       \<and> refresh_access_token cfg
           (map (\<lambda>u. u\<lparr>last_login_at := l u, is_active := a u\<rparr>) st) tok now'
           = refresh_access_token cfg st tok now'
       \<and> (jwt_refresh_token_required tok now' = Inl x \<longrightarrow>
            refresh_access_token cfg st tok now' = Inl (refresh_access_token_except cfg x))"
proof -
  have 1: "refresh_access_token cfg st (Some (JWT refresh i e)) now =
           (if i = []
            then Inl (HTTPException 500
                   (if str_e cfg (HTTPException 401 ''Could not refresh access token'') = []
                    then ''Internal Server Error''
                    else str_e cfg (HTTPException 401 ''Could not refresh access token'')))
            else
              (case User_read st (Some i) of
                 None \<Rightarrow>
                   Inl (HTTPException 500
                     (if str_e cfg (NotFoundException ''User not found'') = []
                      then ''Internal Server Error''
                      else str_e cfg (NotFoundException ''User not found'')))
               | Some u \<Rightarrow>
                   Inr (JSONResponse 200 [(''access_token'',
                     JTok (create_access_token i (60 * ACCESS_TOKEN_EXPIRES_IN cfg) now))])))"
    using assms
    by (auto simp: refresh_access_token_def refresh_access_token_try_def
        refresh_access_token_except_def jwt_refresh_token_required_def ReadUser_execute_def
        split: option.splits dest: find_user_id)
  have 2: "refresh_access_token cfg
             (map (\<lambda>u. u\<lparr>last_login_at := l u, is_active := a u\<rparr>) st) tok now'
           = refresh_access_token cfg st tok now'"
    by (rule refresh_access_token_map) simp
  have 3: "jwt_refresh_token_required tok now' = Inl x \<longrightarrow>
            refresh_access_token cfg st tok now' = Inl (refresh_access_token_except cfg x)"
    by (simp add: refresh_access_token_def refresh_access_token_try_def)
  from 1 2 3 show ?thesis by simp
qed

text \<open>
  At the logged-out, soft-deleted \<open>carol\<close> the refresh succeeds; on the empty table the
  same token is refused; a request without a token is refused.
\<close>

theorem refresh_access_token_ignores_session_state_witness:
  "(1500::int) < 9000
   \<and> last_login_at carol = None \<and> \<not> is_active carol
   \<and> refresh_access_token cfg0 [carol] (Some (JWT refresh ''u3'' 9000)) 1500 =
       Inr (JSONResponse 200 [(''access_token'', JTok (JWT access ''u3'' 2400))])
   \<and> refresh_access_token cfg0 [] (Some (JWT refresh ''u3'' 9000)) 1500 =
       Inl (HTTPException 500 ''Internal Server Error'')
   \<and> jwt_refresh_token_required None 1500 = Inl (MissingTokenError ''Missing token'')
   \<and> refresh_access_token cfg0 [carol] None 1500 =
       Inl (HTTPException 400 ''Provide refresh token'')"
proof -
  have m: "jwt_refresh_token_required None 1500 = Inl (MissingTokenError ''Missing token'')"
    by (simp add: jwt_refresh_token_required_def)
  from refresh_access_token_ignores_session_state
         [of 1500 9000 cfg0 "[carol]" "''u3''" _ _ None 1500 "MissingTokenError ''Missing token''"]
       refresh_access_token_ignores_session_state
         [of 1500 9000 cfg0 "[]" "''u3''"] m
  show ?thesis
    by (simp add: sample_defs create_access_token_def refresh_access_token_except_def)
qed

section \<open>Session invalidation\<close>

text \<open>
  C7. After a logout that succeeded, the access token it was made with is rejected by
  the guard with status 401 and "Log in first to access this route" at every time at
  which the token itself still verifies: the guard reads \<open>last_login_at\<close> from the
  table, and the logout has cleared it.
\<close>

theorem logout_user_invalidates_access_token:
  assumes "logout_user st tok now = (Inr r, st')"
    and "jwt_required tok now' = Inr ()"
  shows "protected_route st' tok now' =
           Inl (HTTPException 401 ''Log in first to access this route'')"
proof -
  from logout_user_InrD[OF assms(1)] obtain i e u where
    f: "tok = Some (JWT access i e)" "find (\<lambda>u. user_id u = i) st = Some u" "is_active u"
       "st' = commit st
                (u\<lparr>hashed_otp := None, otp_created_at := None, last_login_at := None\<rparr>)"
    by blast
  have "user_id u = i" using f(2) by (rule find_user_id)
  with f assms(2) show ?thesis
    by (simp add: protected_route_def protected_route_try_def ReadUser_execute_for_auth_def
        find_commit)
qed

theorem logout_user_invalidates_access_token_witness:
  "logout_user [alice] (Some (JWT access ''u1'' 2000)) 1500 =
     (Inr (JSONResponse 200 [(''message'', JStr ''Successfully logged out'')]),
      [alice\<lparr>last_login_at := None\<rparr>])
   \<and> jwt_required (Some (JWT access ''u1'' 2000)) 1600 = Inr ()
   \<and> protected_route [alice\<lparr>last_login_at := None\<rparr>] (Some (JWT access ''u1'' 2000)) 1600 =
       Inl (HTTPException 401 ''Log in first to access this route'')"
proof -
  have h: "logout_user [alice] (Some (JWT access ''u1'' 2000)) 1500 =
     (Inr (JSONResponse 200 [(''message'', JStr ''Successfully logged out'')]),
      [alice\<lparr>last_login_at := None\<rparr>])"
    by (simp add: route_defs sample_defs)
  have j: "jwt_required (Some (JWT access ''u1'' 2000)) 1600 = Inr ()"
    by (simp add: jwt_required_def)
  from logout_user_invalidates_access_token [OF h j] h j show ?thesis by simp
qed

section \<open>Consumption of the one-time password\<close>

text \<open>
  C8, as amended. With \<open>id\<close> a primary key, after a login that succeeded the user's row
  has \<open>hashed_otp\<close> and \<open>otp_created_at\<close> null and \<open>last_login_at\<close> set to the time of the
  login, and a second verify of any code, at any time, issues nothing and leaves the
  table alone: it is rejected with status 400 and "User has not requested OTP yet",
  except in debug mode while the session is unexpired (now is not after \<open>last_login_at\<close>
  plus the access lifetime), where the answer is 208 "You are logged in.".
\<close>

theorem get_token_consumes_otp:
  assumes "distinct (map user_id st)"
    and "get_token cfg st e code now = (Inr (CreateUserTokenResponse n a r un), st')"
  shows "\<exists>u'. User_read_by_email st' e = Some u'
           \<and> hashed_otp u' = None \<and> otp_created_at u' = None \<and> last_login_at u' = Some now
           \<and> get_token cfg st' e code' now' =
               (if DEBUG_MODE cfg \<and> now' \<le> now + 60 * ACCESS_TOKEN_EXPIRES_IN cfg
                then Inr (JSONResponse 208 [(''detail'', JStr ''You are logged in.'')])
                else Inl (HTTPException 400 ''User has not requested OTP yet''), st')"
proof -
  from get_token_InrD[OF assms(2)] obtain u w where
    f: "find (\<lambda>u. email u = e) st = Some u" "find (\<lambda>w. user_id w = user_id u) st = Some w"
       "st' = commit st
                (w\<lparr>hashed_otp := None, otp_created_at := None, last_login_at := Some now\<rparr>)"
    by blast
  from find_id_distinct[OF assms(1) f(1)] f(2) have wu: "w = u" by simp
  let ?r = "u\<lparr>hashed_otp := None, otp_created_at := None, last_login_at := Some now\<rparr>"
  have e: "email ?r = e" using find_email[OF f(1)] by simp
  have "find (\<lambda>u. email u = e) (commit st ?r) = Some ?r"
    by (rule find_email_commit[OF assms(1) f(1) _ e]) simp
  with f(3) wu have r: "User_read_by_email st' e = Some ?r"
    by (simp add: User_read_by_email_def)
  then have "get_token cfg st' e code' now' =
               (if DEBUG_MODE cfg \<and> now' \<le> now + 60 * ACCESS_TOKEN_EXPIRES_IN cfg
                then Inr (JSONResponse 208 [(''detail'', JStr ''You are logged in.'')])
                else Inl (HTTPException 400 ''User has not requested OTP yet''), st')"
    by (simp add: get_token_def ReadUserForToken_execute_def)
  with r show ?thesis by simp
qed

theorem get_token_consumes_otp_witness:
  "distinct (map user_id [alice, bob])
   \<and> get_token cfg0 [alice, bob] ''bob@x.com'' ''1234'' 1100 =
       (Inr (CreateUserTokenResponse True (JWT access ''u2'' 2000) (JWT refresh ''u2'' 4700)
              ''bob''),
        [alice, bob\<lparr>hashed_otp := None, otp_created_at := None, last_login_at := Some 1100\<rparr>])
   \<and> get_token cfg0
        [alice, bob\<lparr>hashed_otp := None, otp_created_at := None, last_login_at := Some 1100\<rparr>]
        ''bob@x.com'' ''1234'' 1200 =
       (Inl (HTTPException 400 ''User has not requested OTP yet''),
        [alice, bob\<lparr>hashed_otp := None, otp_created_at := None, last_login_at := Some 1100\<rparr>])"
proof -
  have d: "distinct (map user_id [alice, bob])" by (simp add: sample_defs)
  have h: "get_token cfg0 [alice, bob] ''bob@x.com'' ''1234'' 1100 =
       (Inr (CreateUserTokenResponse True (JWT access ''u2'' 2000) (JWT refresh ''u2'' 4700)
              ''bob''),
        [alice, bob\<lparr>hashed_otp := None, otp_created_at := None, last_login_at := Some 1100\<rparr>])"
    by (simp add: route_defs sample_defs)
  have dm: "\<not> DEBUG_MODE cfg0" by (simp add: cfg0_def)
  from get_token_consumes_otp [OF d h, of "''1234''" 1200] d h dm show ?thesis
    by auto
qed

text \<open>
  The claim as stated fails in debug mode: 100 seconds after \<open>bob\<close>'s login, the second
  verify is not rejected for a missing password but answered with 208.
\<close>

theorem get_token_second_verify_counterexample:
  "get_token cfg_debug [bob] ''bob@x.com'' ''1234'' 1100 =
     (Inr (CreateUserTokenResponse True (JWT access ''u2'' 2000) (JWT refresh ''u2'' 4700)
            ''bob''),
      [bob\<lparr>hashed_otp := None, otp_created_at := None, last_login_at := Some 1100\<rparr>])
   \<and> get_token cfg_debug
        [bob\<lparr>hashed_otp := None, otp_created_at := None, last_login_at := Some 1100\<rparr>]
        ''bob@x.com'' ''1234'' 1200 =
       (Inr (JSONResponse 208 [(''detail'', JStr ''You are logged in.'')]),
        [bob\<lparr>hashed_otp := None, otp_created_at := None, last_login_at := Some 1100\<rparr>])"
  by (simp add: route_defs sample_defs)

section \<open>Round trip of the access token\<close>

text \<open>
  C10. An access token issued for the subject \<open>i\<close> verifies as an access token at every
  time before its expiry, and the subject read from it is exactly \<open>i\<close>.
\<close>

theorem access_token_round_trip:
  assumes "now' < now + expires_time"
  shows "jwt_required (Some (create_access_token i expires_time now)) now' = Inr ()
       \<and> get_jwt_subject (Some (create_access_token i expires_time now)) = Some i"
  using assms by (simp add: jwt_required_def create_access_token_def)

theorem access_token_round_trip_witness:
  "(1600::int) < 1000 + 900
   \<and> jwt_required (Some (create_access_token ''u1'' 900 1000)) 1600 = Inr ()
   \<and> get_jwt_subject (Some (create_access_token ''u1'' 900 1000)) = Some ''u1''"
  using access_token_round_trip [of 1600 1000 900 "''u1''"] by simp

text \<open>
  The same round trip through the routes: the access token of a successful login, shown
  to the guard before its expiry, yields the id of the row that logged in, provided the
  row is active.
\<close>

lemma get_token_then_protected_route:
  assumes "distinct (map user_id st)"
    and "get_token cfg st e code now = (Inr (CreateUserTokenResponse n a r un), st')"
    and "User_read_by_email st e = Some u" and "is_active u"
    and "now' < now + 60 * ACCESS_TOKEN_EXPIRES_IN cfg"
  shows "protected_route st' (Some a) now' = Inr (user_id u)"
proof -
  from get_token_InrD[OF assms(2)] assms(3) obtain w where
    f: "find (\<lambda>u. email u = e) st = Some u" "find (\<lambda>w. user_id w = user_id u) st = Some w"
       "st' = commit st
                (w\<lparr>hashed_otp := None, otp_created_at := None, last_login_at := Some now\<rparr>)"
       "a = create_access_token (user_id u) (60 * ACCESS_TOKEN_EXPIRES_IN cfg) now"
    by (auto simp: User_read_by_email_def)
  from find_id_distinct[OF assms(1) f(1)] f(2) have wu: "w = u" by simp
  with f assms(4,5) show ?thesis
    by (simp add: protected_route_def protected_route_try_def ReadUser_execute_for_auth_def
        find_commit jwt_required_def create_access_token_def)
qed

end
